theory Spec2Isabelle
  imports Main "HOL-Library.Word"
begin

unbundle bit_operations_syntax

section \<open>Abstract-domain scaffolding\<close>

text \<open>
  \<^verbatim>\<open>AbstractValueKind\<close> and \<^verbatim>\<open>AbstractDomainScaffolding<Value, Derived>\<close>
  (AbstractDomain.h). A domain is a kind tag together with the underlying abstract value.
\<close>

datatype AbstractValueKind = Bottom | Value | Top

record 'v AbstractDomainScaffolding =
  m_kind :: AbstractValueKind
  m_value :: 'v

definition is_bottom :: "'v AbstractDomainScaffolding \<Rightarrow> bool" where
  "is_bottom d = (m_kind d = Bottom)"

definition is_top :: "'v AbstractDomainScaffolding \<Rightarrow> bool" where
  "is_top d = (m_kind d = Top)"


subsection \<open>The hashed-set domain over strings\<close>

text \<open>
  Modelled from the spec: \<^verbatim>\<open>HashedSetAbstractDomain<std::string>\<close>, the value type of the
  Patricia-tree unit tests (HashedSetAbstractDomain.h is not part of the sources at hand).
  It is the powerset lattice of strings with two extra sentinels: the order is inclusion,
  join is union and meet is intersection; Top and Bottom carry the cleared (empty) set. The
  empty set is an ordinary value, distinct from both sentinels.
\<close>

type_synonym Domain = "string set AbstractDomainScaffolding"

definition domain_top :: Domain where
  "domain_top = \<lparr>m_kind = Top, m_value = {}\<rparr>"

definition domain_bottom :: Domain where
  "domain_bottom = \<lparr>m_kind = Bottom, m_value = {}\<rparr>"

definition domain_of :: "string set \<Rightarrow> Domain" where
  "domain_of A = \<lparr>m_kind = Value, m_value = A\<rparr>"

definition domain_leq :: "Domain \<Rightarrow> Domain \<Rightarrow> bool" where
  "domain_leq x y =
     (if is_bottom x then True
      else if is_bottom y then False
      else if is_top y then True
      else if is_top x then False
      else m_value x \<subseteq> m_value y)"

definition domain_equals :: "Domain \<Rightarrow> Domain \<Rightarrow> bool" where
  "domain_equals x y =
     (if is_bottom x then is_bottom y
      else if is_top x then is_top y
      else m_kind y = Value \<and> m_value x = m_value y)"

definition domain_join :: "Domain \<Rightarrow> Domain \<Rightarrow> Domain" where
  "domain_join x y =
     (if is_top x \<or> is_bottom y then x
      else if is_top y \<or> is_bottom x then y
      else domain_of (m_value x \<union> m_value y))"

definition domain_meet :: "Domain \<Rightarrow> Domain \<Rightarrow> Domain" where
  "domain_meet x y =
     (if is_bottom x \<or> is_top y then x
      else if is_bottom y \<or> is_top x then y
      else domain_of (m_value x \<inter> m_value y))"

section \<open>Patricia-tree maps\<close>

text \<open>
  PatriciaTreeMap.h, instantiated as in the unit tests: keys are \<^verbatim>\<open>uint32_t\<close>, values are
  hashed sets of strings.

  Tree nodes are immutable and held through \<^verbatim>\<open>std::shared_ptr\<close>. A pointer is modelled by
  the node it points to, tagged with the address the node received when it was allocated;
  \<open>Nullptr\<close> is the null pointer. Pointer comparison (\<^verbatim>\<open>s == t\<close>) compares addresses.
  Every \<^verbatim>\<open>std::make_shared\<close> takes the next unused address, which is threaded through all
  allocating functions.
\<close>

type_synonym IntegerType = "32 word"
type_synonym addr = nat

datatype PatriciaTree =
    Nullptr
  | PatriciaTreeLeaf addr IntegerType Domain
  | PatriciaTreeBranch addr IntegerType IntegerType PatriciaTree PatriciaTree

fun address :: "PatriciaTree \<Rightarrow> addr option" where
  "address Nullptr = None"
| "address (PatriciaTreeLeaf a k v) = Some a"
| "address (PatriciaTreeBranch a p m l r) = Some a"

definition ptr_eq :: "PatriciaTree \<Rightarrow> PatriciaTree \<Rightarrow> bool" where
  "ptr_eq s t = (address s = address t)"

definition make_shared_leaf :: "IntegerType \<Rightarrow> Domain \<Rightarrow> addr \<Rightarrow> PatriciaTree \<times> addr" where
  "make_shared_leaf key v n = (PatriciaTreeLeaf n key v, Suc n)"

definition make_shared_branch ::
  "IntegerType \<Rightarrow> IntegerType \<Rightarrow> PatriciaTree \<Rightarrow> PatriciaTree \<Rightarrow> addr \<Rightarrow> PatriciaTree \<times> addr" where
  "make_shared_branch p m l r n = (PatriciaTreeBranch n p m l r, Suc n)"

subsection \<open>Bit manipulation\<close>

text \<open>
  Modelled from the spec: the helpers of PatriciaTreeUtil.h, which is not part of the
  sources at hand. The tries are little-endian: the branching bit of two prefixes is the
  lowest bit at which they differ, and the prefix of a key at a branching bit \<open>m\<close>
  consists of the bits below \<open>m\<close>. This is the reading under which the comparisons
  \<^verbatim>\<open>m < n && match_prefix(q, p, m)\<close> of the source mean "q contains p".
\<close>

definition is_zero_bit :: "IntegerType \<Rightarrow> IntegerType \<Rightarrow> bool" where
  "is_zero_bit k m = (k AND m = 0)"

definition get_lowest_bit :: "IntegerType \<Rightarrow> IntegerType" where
  "get_lowest_bit x = x AND (NOT x + 1)"

definition get_branching_bit :: "IntegerType \<Rightarrow> IntegerType \<Rightarrow> IntegerType" where
  "get_branching_bit prefix0 prefix1 = get_lowest_bit (prefix0 XOR prefix1)"

definition mask_prefix :: "IntegerType \<Rightarrow> IntegerType \<Rightarrow> IntegerType" where
  "mask_prefix k m = k AND (m - 1)"

definition match_prefix :: "IntegerType \<Rightarrow> IntegerType \<Rightarrow> IntegerType \<Rightarrow> bool" where
  "match_prefix k p m = (mask_prefix k m = p)"

subsection \<open>Tree operations\<close>

definition join ::
  "IntegerType \<Rightarrow> PatriciaTree \<Rightarrow> IntegerType \<Rightarrow> PatriciaTree \<Rightarrow> addr \<Rightarrow> PatriciaTree \<times> addr" where
  "join prefix0 tree0 prefix1 tree1 n =
     (let m = get_branching_bit prefix0 prefix1 in
      if is_zero_bit prefix0 m
      then make_shared_branch (mask_prefix prefix0 m) m tree0 tree1 n
      else make_shared_branch (mask_prefix prefix0 m) m tree1 tree0 n)"

definition make_branch ::
  "IntegerType \<Rightarrow> IntegerType \<Rightarrow> PatriciaTree \<Rightarrow> PatriciaTree \<Rightarrow> addr \<Rightarrow> PatriciaTree \<times> addr" where
  "make_branch p m left_tree right_tree n =
     (if left_tree = Nullptr then (right_tree, n)
      else if right_tree = Nullptr then (left_tree, n)
      else make_shared_branch p m left_tree right_tree n)"

fun find_value :: "IntegerType \<Rightarrow> PatriciaTree \<Rightarrow> Domain option" where
  "find_value key Nullptr = None"
| "find_value key (PatriciaTreeLeaf a k v) = (if key = k then Some v else None)"
| "find_value key (PatriciaTreeBranch a p m l r) =
     (if is_zero_bit key m then find_value key l else find_value key r)"

fun leq :: "PatriciaTree \<Rightarrow> PatriciaTree \<Rightarrow> bool" where
  "leq s t =
     (if ptr_eq s t then True
      else case s of
        Nullptr \<Rightarrow> False
      | PatriciaTreeLeaf sa sk sv \<Rightarrow>
          (case t of
             Nullptr \<Rightarrow> True
           | PatriciaTreeBranch ta q n t0 t1 \<Rightarrow> False
           | PatriciaTreeLeaf ta tk tv \<Rightarrow> domain_leq sv tv)
      | PatriciaTreeBranch sa p m s0 s1 \<Rightarrow>
          (case t of
             Nullptr \<Rightarrow> True
           | PatriciaTreeLeaf ta tk tv \<Rightarrow>
               (case find_value tk s of
                  None \<Rightarrow> False
                | Some s_value \<Rightarrow> domain_leq s_value tv)
           | PatriciaTreeBranch ta q n t0 t1 \<Rightarrow>
               if m = n \<and> p = q then leq s0 t0 \<and> leq s1 t1
               else if m < n \<and> match_prefix q p m
               then leq (if is_zero_bit q m then s0 else s1) t
               else False))"

fun equals :: "PatriciaTree \<Rightarrow> PatriciaTree \<Rightarrow> bool" where
  "equals tree1 tree2 =
     (if ptr_eq tree1 tree2 then True
      else case tree1 of
        Nullptr \<Rightarrow> tree2 = Nullptr
      | PatriciaTreeLeaf a1 k1 v1 \<Rightarrow>
          (case tree2 of
             Nullptr \<Rightarrow> False
           | PatriciaTreeBranch a2 q n t0 t1 \<Rightarrow> False
           | PatriciaTreeLeaf a2 k2 v2 \<Rightarrow> k1 = k2 \<and> domain_equals v1 v2)
      | PatriciaTreeBranch a1 p m s0 s1 \<Rightarrow>
          (case tree2 of
             Nullptr \<Rightarrow> False
           | PatriciaTreeLeaf a2 k2 v2 \<Rightarrow> False
           | PatriciaTreeBranch a2 q n t0 t1 \<Rightarrow>
               p = q \<and> m = n \<and> equals s0 t0 \<and> equals s1 t1))"

declare leq.simps [simp del]
declare equals.simps [simp del]

text \<open>
  \<^verbatim>\<open>combine_leaf\<close>: the existing value of the leaf is the first argument of \<open>combine\<close>.
  A result that is Top removes the binding; an unchanged value returns the same leaf.
\<close>

fun combine_leaf ::
  "(Domain \<Rightarrow> Domain \<Rightarrow> Domain) \<Rightarrow> Domain \<Rightarrow> PatriciaTree \<Rightarrow> addr \<Rightarrow> PatriciaTree \<times> addr" where
  "combine_leaf combine v (PatriciaTreeLeaf a k lv) n =
     (let combined_value = combine lv v in
      if is_top combined_value then (Nullptr, n)
      else if \<not> domain_equals combined_value lv then make_shared_leaf k combined_value n
      else (PatriciaTreeLeaf a k lv, n))"
| "combine_leaf combine v t n = (t, n)"

definition combine_new_leaf ::
  "(Domain \<Rightarrow> Domain \<Rightarrow> Domain) \<Rightarrow> IntegerType \<Rightarrow> Domain \<Rightarrow> addr \<Rightarrow> PatriciaTree \<times> addr" where
  "combine_new_leaf combine key v n =
     (let (new_leaf, n1) = make_shared_leaf key domain_top n in
      combine_leaf combine v new_leaf n1)"

fun update ::
  "(Domain \<Rightarrow> Domain \<Rightarrow> Domain) \<Rightarrow> IntegerType \<Rightarrow> Domain \<Rightarrow> PatriciaTree \<Rightarrow> addr
    \<Rightarrow> PatriciaTree \<times> addr" where
  "update combine key v Nullptr n = combine_new_leaf combine key v n"
| "update combine key v (PatriciaTreeLeaf a k lv) n =
     (if key = k then combine_leaf combine v (PatriciaTreeLeaf a k lv) n
      else
        (let (new_leaf, n1) = combine_new_leaf combine key v n in
         if new_leaf = Nullptr then (PatriciaTreeLeaf a k lv, n1)
         else join key new_leaf k (PatriciaTreeLeaf a k lv) n1))"
| "update combine key v (PatriciaTreeBranch a p m l r) n =
     (if match_prefix key p m then
        (if is_zero_bit key m then
           (let (new_left_tree, n1) = update combine key v l n in
            if ptr_eq new_left_tree l then (PatriciaTreeBranch a p m l r, n1)
            else make_branch p m new_left_tree r n1)
         else
           (let (new_right_tree, n1) = update combine key v r n in
            if ptr_eq new_right_tree r then (PatriciaTreeBranch a p m l r, n1)
            else make_branch p m l new_right_tree n1))
      else
        (let (new_leaf, n1) = combine_new_leaf combine key v n in
         if new_leaf = Nullptr then (PatriciaTreeBranch a p m l r, n1)
         else join key new_leaf p (PatriciaTreeBranch a p m l r) n1))"

fun merge ::
  "(Domain \<Rightarrow> Domain \<Rightarrow> Domain) \<Rightarrow> PatriciaTree \<Rightarrow> PatriciaTree \<Rightarrow> addr
    \<Rightarrow> PatriciaTree \<times> addr" where
  "merge combine s t n0 =
     (if ptr_eq s t then (s, n0)
      else case s of
        Nullptr \<Rightarrow> (t, n0)
      | PatriciaTreeLeaf sa sk sv \<Rightarrow>
          (case t of
             Nullptr \<Rightarrow> (s, n0)
           | _ \<Rightarrow> update combine sk sv t n0)
      | PatriciaTreeBranch sa p m s0 s1 \<Rightarrow>
          (case t of
             Nullptr \<Rightarrow> (s, n0)
           | PatriciaTreeLeaf ta tk tv \<Rightarrow> update combine tk tv s n0
           | PatriciaTreeBranch ta q n t0 t1 \<Rightarrow>
               if m = n \<and> p = q then
                 (let (new_left, n1) = merge combine s0 t0 n0;
                      (new_right, n2) = merge combine s1 t1 n1 in
                  if ptr_eq new_left s0 \<and> ptr_eq new_right s1 then (s, n2)
                  else if ptr_eq new_left t0 \<and> ptr_eq new_right t1 then (t, n2)
                  else make_shared_branch p m new_left new_right n2)
               else if m < n \<and> match_prefix q p m then
                 (if is_zero_bit q m then
                    (let (new_left, n1) = merge combine s0 t n0 in
                     if ptr_eq s0 new_left then (s, n1)
                     else make_shared_branch p m new_left s1 n1)
                  else
                    (let (new_right, n1) = merge combine s1 t n0 in
                     if ptr_eq s1 new_right then (s, n1)
                     else make_shared_branch p m s0 new_right n1))
               else if m > n \<and> match_prefix p q n then
                 (if is_zero_bit p n then
                    (let (new_left, n1) = merge combine s t0 n0 in
                     if ptr_eq t0 new_left then (t, n1)
                     else make_shared_branch q n new_left t1 n1)
                  else
                    (let (new_right, n1) = merge combine s t1 n0 in
                     if ptr_eq t1 new_right then (t, n1)
                     else make_shared_branch q n t0 new_right n1))
               else join p s q t n0))"

declare merge.simps [simp del]

text \<open>
  \<^verbatim>\<open>intersect\<close>. In the case of equal prefixes the two recursive results are arguments of
  one call of \<^verbatim>\<open>merge\<close>; they are evaluated here from left to right (the order only
  affects which addresses the new nodes receive).
\<close>

fun intersect ::
  "(Domain \<Rightarrow> Domain \<Rightarrow> Domain) \<Rightarrow> PatriciaTree \<Rightarrow> PatriciaTree \<Rightarrow> addr
    \<Rightarrow> PatriciaTree \<times> addr" where
  "intersect combine s t n0 =
     (if ptr_eq s t then (s, n0)
      else case s of
        Nullptr \<Rightarrow> (Nullptr, n0)
      | PatriciaTreeLeaf sa sk sv \<Rightarrow>
          (case t of
             Nullptr \<Rightarrow> (Nullptr, n0)
           | _ \<Rightarrow>
               (case find_value sk t of
                  None \<Rightarrow> (Nullptr, n0)
                | Some v \<Rightarrow> combine_leaf combine v s n0))
      | PatriciaTreeBranch sa p m s0 s1 \<Rightarrow>
          (case t of
             Nullptr \<Rightarrow> (Nullptr, n0)
           | PatriciaTreeLeaf ta tk tv \<Rightarrow>
               (case find_value tk s of
                  None \<Rightarrow> (Nullptr, n0)
                | Some v \<Rightarrow> combine_leaf combine v t n0)
           | PatriciaTreeBranch ta q n t0 t1 \<Rightarrow>
               if m = n \<and> p = q then
                 (let (i0, n1) = intersect combine s0 t0 n0;
                      (i1, n2) = intersect combine s1 t1 n1 in
                  merge domain_meet i0 i1 n2)
               else if m < n \<and> match_prefix q p m then
                 intersect combine (if is_zero_bit q m then s0 else s1) t n0
               else if m > n \<and> match_prefix p q n then
                 intersect combine s (if is_zero_bit p n then t0 else t1) n0
               else (Nullptr, n0)))"

declare intersect.simps [simp del]

subsection \<open>The map interface\<close>

text \<open>
  \<^verbatim>\<open>PatriciaTreeMap<uint32_t, Domain>\<close> holds the root pointer \<^verbatim>\<open>m_tree\<close>. The mutating
  methods replace the root; they are modelled as functions from the old root (and the next
  free address) to the new one.
\<close>

definition is_empty :: "PatriciaTree \<Rightarrow> bool" where
  "is_empty m_tree = (m_tree = Nullptr)"

definition at :: "PatriciaTree \<Rightarrow> IntegerType \<Rightarrow> Domain" where
  "at m_tree key = (case find_value key m_tree of None \<Rightarrow> domain_top | Some v \<Rightarrow> v)"

definition snd_value :: "Domain \<Rightarrow> Domain \<Rightarrow> Domain" where
  "snd_value x second = second"

definition insert_or_assign ::
  "IntegerType \<Rightarrow> Domain \<Rightarrow> PatriciaTree \<Rightarrow> addr \<Rightarrow> PatriciaTree \<times> addr" where
  "insert_or_assign key v m_tree n = update snd_value key v m_tree n"

definition union_with ::
  "(Domain \<Rightarrow> Domain \<Rightarrow> Domain) \<Rightarrow> PatriciaTree \<Rightarrow> PatriciaTree \<Rightarrow> addr
    \<Rightarrow> PatriciaTree \<times> addr" where
  "union_with combine m_tree other n = merge combine m_tree other n"

definition intersection_with ::
  "(Domain \<Rightarrow> Domain \<Rightarrow> Domain) \<Rightarrow> PatriciaTree \<Rightarrow> PatriciaTree \<Rightarrow> addr
    \<Rightarrow> PatriciaTree \<times> addr" where
  "intersection_with combine m_tree other n = intersect combine m_tree other n"

text \<open>The bindings in the order of the iterator (leftmost leaf first).\<close>

fun bindings :: "PatriciaTree \<Rightarrow> (IntegerType \<times> Domain) list" where
  "bindings Nullptr = []"
| "bindings (PatriciaTreeLeaf a k v) = [(k, v)]"
| "bindings (PatriciaTreeBranch a p m l r) = bindings l @ bindings r"

text \<open>The leaf that holds a key, as a pointer: the subtree containing only that key.\<close>

fun leaf_of :: "IntegerType \<Rightarrow> PatriciaTree \<Rightarrow> PatriciaTree" where
  "leaf_of key Nullptr = Nullptr"
| "leaf_of key (PatriciaTreeLeaf a k v) = (if key = k then PatriciaTreeLeaf a k v else Nullptr)"
| "leaf_of key (PatriciaTreeBranch a p m l r) =
     (if is_zero_bit key m then leaf_of key l else leaf_of key r)"

subsection \<open>The two maps of the union/intersection scenario\<close>

definition m1 :: "PatriciaTree \<times> addr" where
  "m1 =
     (let (t1, n1) = insert_or_assign 1 (domain_of {''a''}) Nullptr 0;
          (t2, n2) = insert_or_assign 2 (domain_of {''b''}) t1 n1
      in insert_or_assign 3 (domain_of {''d'', ''e''}) t2 n2)"

definition m2 :: "addr \<Rightarrow> PatriciaTree \<times> addr" where
  "m2 n =
     (let (t1, n1) = insert_or_assign 2 (domain_of {''c''}) Nullptr n;
          (t2, n2) = insert_or_assign 3 (domain_of {''e'', ''f''}) t1 n1
      in insert_or_assign 4 (domain_of {''g''}) t2 n2)"

definition m1_tree :: PatriciaTree where
  "m1_tree = fst m1"

definition m2_tree :: PatriciaTree where
  "m2_tree = fst (m2 (snd m1))"

definition next_addr :: addr where
  "next_addr = snd (m2 (snd m1))"

definition union_result :: PatriciaTree where
  "union_result = fst (union_with domain_join m1_tree m2_tree next_addr)"

definition intersection_result :: PatriciaTree where
  "intersection_result = fst (intersection_with domain_meet m1_tree m2_tree next_addr)"

text \<open>Two one-element maps with different keys, used to exercise \<open>leq\<close>.\<close>

definition leaf_map_1 :: PatriciaTree where
  "leaf_map_1 = fst (insert_or_assign 1 (domain_of {''a''}) Nullptr 0)"

definition leaf_map_2 :: PatriciaTree where
  "leaf_map_2 = fst (insert_or_assign 2 (domain_of {''a''}) Nullptr 2)"


section \<open>The alias domain\<close>

text \<open>
  AliasedRegisters.h. A \<^verbatim>\<open>RegisterValue\<close> is a tagged union; \<^verbatim>\<open>AliasedRegisters\<close> is an
  undirected graph over register values (vertices in a vector, edges as a set of index
  pairs) with a cache of its connected components.
\<close>

type_synonym Register = "16 word"

datatype RegisterValue =
    REGISTER Register
  | CONST_LITERAL "64 word"
  | CONST_STRING nat
  | CONST_TYPE nat
  | NONE








section \<open>The class-hierarchy index\<close>

text \<open>
  ClassHierarchy.cpp. Interned objects (\<^verbatim>\<open>DexType*\<close>, \<^verbatim>\<open>DexString*\<close>, \<^verbatim>\<open>DexProto*\<close>) are
  compared by pointer and are modelled by numbers. A \<^verbatim>\<open>DexMethod*\<close> is modelled by the
  method it points to, which carries its own identity. A \<^verbatim>\<open>TypeSet\<close> is an ordered set
  of types; it is a strictly sorted list here, the order of the numbers standing for the
  order of the type comparator.
\<close>

type_synonym DexType = nat
type_synonym DexString = nat
type_synonym DexProto = nat

record DexMethod =
  method_id :: nat
  method_name :: DexString
  method_proto :: DexProto

record DexClass =
  class_type :: DexType
  super_class :: "DexType option"
  interfaces :: "DexType list"
  dmethods :: "DexMethod list"
  vmethods :: "DexMethod list"
  is_external :: bool
  is_interface :: bool

type_synonym TypeSet = "DexType list"
type_synonym ClassHierarchy = "DexType \<rightharpoonup> TypeSet"

definition typeset_insert :: "DexType \<Rightarrow> TypeSet \<Rightarrow> TypeSet" where
  "typeset_insert t ts = (if t \<in> set ts then ts else insort t ts)"

text \<open>\<^verbatim>\<open>hierarchy[t]\<close>: the entry of \<open>t\<close>, created empty when absent.\<close>

definition entry :: "ClassHierarchy \<Rightarrow> DexType \<Rightarrow> TypeSet" where
  "entry hierarchy t = (case hierarchy t of None \<Rightarrow> [] | Some ts \<Rightarrow> ts)"

definition match :: "DexString \<Rightarrow> DexProto \<Rightarrow> DexMethod \<Rightarrow> bool" where
  "match name proto cls_meth = (name = method_name cls_meth \<and> proto = method_proto cls_meth)"

text \<open>
  \<^verbatim>\<open>build_class_hierarchy\<close>; \<open>object_type\<close> is the value of \<^verbatim>\<open>get_object_type()\<close>.
\<close>

definition build_class_hierarchy :: "DexType \<Rightarrow> ClassHierarchy \<Rightarrow> DexClass \<Rightarrow> ClassHierarchy" where
  "build_class_hierarchy object_type hierarchy cls =
     (let h1 = hierarchy(class_type cls \<mapsto> entry hierarchy (class_type cls));
          type = class_type cls
      in case super_class cls of
           Some super \<Rightarrow> h1(super \<mapsto> typeset_insert type (entry h1 super))
         | None \<Rightarrow>
             if type \<noteq> object_type
             then h1(object_type \<mapsto> typeset_insert type (entry h1 object_type))
             else h1)"

text \<open>
  \<^verbatim>\<open>build_external_hierarchy\<close> walks every class known to the global context; that list
  of classes is the parameter \<open>all_classes\<close>.
\<close>

fun build_external_hierarchy :: "DexType \<Rightarrow> ClassHierarchy \<Rightarrow> DexClass list \<Rightarrow> ClassHierarchy" where
  "build_external_hierarchy object_type hierarchy [] = hierarchy"
| "build_external_hierarchy object_type hierarchy (cls # rest) =
     (if \<not> is_external cls \<or> is_interface cls
      then build_external_hierarchy object_type hierarchy rest
      else build_external_hierarchy object_type
             (build_class_hierarchy object_type hierarchy cls) rest)"

fun build_scope_hierarchy :: "DexType \<Rightarrow> ClassHierarchy \<Rightarrow> DexClass list \<Rightarrow> ClassHierarchy" where
  "build_scope_hierarchy object_type hierarchy [] = hierarchy"
| "build_scope_hierarchy object_type hierarchy (cls # rest) =
     (if is_interface cls
      then build_scope_hierarchy object_type hierarchy rest
      else build_scope_hierarchy object_type
             (build_class_hierarchy object_type hierarchy cls) rest)"

definition build_type_hierarchy :: "DexType \<Rightarrow> DexClass list \<Rightarrow> DexClass list \<Rightarrow> ClassHierarchy" where
  "build_type_hierarchy object_type all_classes scope =
     build_external_hierarchy object_type
       (build_scope_hierarchy object_type Map.empty scope) all_classes"

text \<open>
  Modelled from the spec: \<^verbatim>\<open>get_children\<close> of ClassHierarchy.h, which is not part of the
  sources at hand: "direct_children(t): immediate subclasses", the entry of \<open>t\<close> in the
  index, empty for a type without entry.
\<close>

definition get_children :: "ClassHierarchy \<Rightarrow> DexType \<Rightarrow> TypeSet" where
  "get_children hierarchy t = (case hierarchy t of None \<Rightarrow> [] | Some ts \<Rightarrow> ts)"

text \<open>
  \<^verbatim>\<open>get_all_children\<close> recurses into every child while it iterates over the direct
  children. \<open>get_all_children_loop\<close> is that iteration over the remaining direct
  children; the recursive call for a child is the loop over the child's children. On a
  cyclic index the recursion does not end: the result is \<open>None\<close>.
\<close>

partial_function (option) get_all_children_loop ::
  "ClassHierarchy \<Rightarrow> DexType list \<Rightarrow> TypeSet \<Rightarrow> TypeSet option" where
  "get_all_children_loop hierarchy direct children =
     (case direct of
        [] \<Rightarrow> Some children
      | child # rest \<Rightarrow>
          Option.bind
            (get_all_children_loop hierarchy (get_children hierarchy child)
               (typeset_insert child children))
            (\<lambda>children'. get_all_children_loop hierarchy rest children'))"

definition get_all_children :: "ClassHierarchy \<Rightarrow> DexType \<Rightarrow> TypeSet \<Rightarrow> TypeSet option" where
  "get_all_children hierarchy t children =
     get_all_children_loop hierarchy (get_children hierarchy t) children"

text \<open>The edges of the index: \<open>(parent, child)\<close>.\<close>

definition child_rel :: "ClassHierarchy \<Rightarrow> (DexType \<times> DexType) set" where
  "child_rel hierarchy = {(p, c). c \<in> set (get_children hierarchy p)}"

subsection \<open>Collisions\<close>

datatype lookup_error = NullClass | NoReturn

definition check_vmethods ::
  "(DexType \<rightharpoonup> DexClass) \<Rightarrow> DexString \<Rightarrow> DexProto \<Rightarrow> DexType \<Rightarrow> lookup_error + DexMethod option" where
  "check_vmethods type_class_of name proto t =
     (case type_class_of t of
        None \<Rightarrow> Inl NullClass
      | Some cls \<Rightarrow> Inr (find (match name proto) (vmethods cls)))"

definition check_dmethods ::
  "(DexType \<rightharpoonup> DexClass) \<Rightarrow> DexString \<Rightarrow> DexProto \<Rightarrow> DexType \<Rightarrow> lookup_error + DexMethod option" where
  "check_dmethods type_class_of name proto t =
     (case type_class_of t of
        None \<Rightarrow> Inl NullClass
      | Some cls \<Rightarrow> Inr (find (match name proto) (dmethods cls)))"

text \<open>
  The loop of \<^verbatim>\<open>find_collision_excepting\<close> over the descendants. \<open>except\<close> may be the
  null pointer (\<open>None\<close>).
\<close>

fun check_children ::
  "(DexType \<rightharpoonup> DexClass) \<Rightarrow> DexMethod option \<Rightarrow> DexString \<Rightarrow> DexProto \<Rightarrow> bool \<Rightarrow> DexType list
    \<Rightarrow> lookup_error + DexMethod option" where
  "check_children type_class_of except name proto check_direct [] = Inr None"
| "check_children type_class_of except name proto check_direct (child # rest) =
     (case check_vmethods type_class_of name proto child of
        Inl e \<Rightarrow> Inl e
      | Inr vmethod \<Rightarrow>
          if vmethod \<noteq> None \<and> vmethod \<noteq> except then Inr vmethod
          else if check_direct then
            (case check_dmethods type_class_of name proto child of
               Inl e \<Rightarrow> Inl e
             | Inr dmethod \<Rightarrow>
                 if dmethod \<noteq> None \<and> dmethod \<noteq> except then Inr dmethod
                 else check_children type_class_of except name proto check_direct rest)
          else check_children type_class_of except name proto check_direct rest)"

text \<open>
  \<^verbatim>\<open>find_collision_excepting\<close>. \<open>type_class_of\<close> (the \<^verbatim>\<open>type_class\<close> of the source) is the global map from types to classes
  (the class of the null type is null) and \<open>resolve_virtual\<close> is the resolver of
  Resolver.h; both are parameters. A null class dereferenced in the descendant loop is
  the error \<open>NullClass\<close>; a descent that does not end is \<open>NoReturn\<close>.
\<close>

definition find_collision_excepting ::
  "ClassHierarchy \<Rightarrow> (DexType \<rightharpoonup> DexClass)
    \<Rightarrow> (DexClass \<Rightarrow> DexString \<Rightarrow> DexProto \<Rightarrow> DexMethod option)
    \<Rightarrow> DexMethod option \<Rightarrow> DexString \<Rightarrow> DexProto \<Rightarrow> DexClass \<Rightarrow> bool \<Rightarrow> bool
    \<Rightarrow> lookup_error + DexMethod option" where
  "find_collision_excepting ch type_class_of resolve_virtual except name proto cls is_virtual
     check_direct =
     (case find (\<lambda>method. match name proto method \<and> Some method \<noteq> except) (dmethods cls) of
        Some method \<Rightarrow> Inr (Some method)
      | None \<Rightarrow>
     (case find (\<lambda>method. match name proto method \<and> Some method \<noteq> except) (vmethods cls) of
        Some method \<Rightarrow> Inr (Some method)
      | None \<Rightarrow>
     if \<not> is_virtual then Inr None
     else
       (let super = (case super_class cls of None \<Rightarrow> None | Some s \<Rightarrow> type_class_of s);
            method = (case super of None \<Rightarrow> None | Some s \<Rightarrow> resolve_virtual s name proto)
        in if method \<noteq> None \<and> method \<noteq> except then Inr method
           else
             (case get_all_children ch (class_type cls) [] of
                None \<Rightarrow> Inl NoReturn
              | Some children \<Rightarrow>
                  check_children type_class_of except name proto check_direct children))))"

subsection \<open>Example scopes\<close>

definition example_class :: "DexType \<Rightarrow> DexType option \<Rightarrow> DexClass" where
  "example_class t s = \<lparr>class_type = t, super_class = s, interfaces = [], dmethods = [],
     vmethods = [], is_external = False, is_interface = False\<rparr>"

text \<open>
  The root (type 0), a class 1 below it, a class 2 below class 1, and a class 3 without
  super class, which becomes a child of the root.
\<close>

definition example_scope :: "DexClass list" where
  "example_scope = [example_class 0 None, example_class 1 (Some 0), example_class 2 (Some 1),
     example_class 3 None]"

definition example_hierarchy :: ClassHierarchy where
  "example_hierarchy = build_type_hierarchy 0 [] example_scope"

text \<open>A class with one direct and one virtual method, and an index with a cycle through it.\<close>

definition example_methods_class :: DexClass where
  "example_methods_class =
     \<lparr>class_type = 1, super_class = Some 2, interfaces = [],
      dmethods = [\<lparr>method_id = 10, method_name = 7, method_proto = 1\<rparr>],
      vmethods = [\<lparr>method_id = 11, method_name = 8, method_proto = 1\<rparr>],
      is_external = False, is_interface = False\<rparr>"

definition cyclic_hierarchy :: ClassHierarchy where
  "cyclic_hierarchy = [1 \<mapsto> [2], 2 \<mapsto> [1]]"


section \<open>Register allocation: the select stage\<close>

text \<open>
  GraphColoring.cpp. A symbolic register and a virtual register are both \<^verbatim>\<open>reg_t\<close>. Of a
  node of the interference graph the select stage reads the width, the largest virtual
  register its instructions can encode, and the adjacency list; \<^verbatim>\<open>ig.get_node\<close> is a
  function from registers to nodes. Registers are natural numbers: the slots the stage
  computes are bounded by the sum of the widths of the nodes, far below the range of
  \<^verbatim>\<open>reg_t\<close>.
\<close>

type_synonym reg_t = nat

record Node =
  width :: nat
  max_vreg :: reg_t
  adjacent :: "reg_t list"

type_synonym Graph = "reg_t \<Rightarrow> Node"

subsection \<open>The register file\<close>

text \<open>
  Modelled from the spec: \<^verbatim>\<open>VirtualRegistersFile\<close> (VirtualRegistersFile.h is not part of
  the sources at hand). It is "a bitmap of vregs": one flag per slot, True for a free slot;
  slots past the end of the bitmap are free. \<^verbatim>\<open>alloc_at(pos, width)\<close> grows the bitmap
  where needed and marks the \<open>width\<close> slots from \<open>pos\<close> as occupied. \<^verbatim>\<open>alloc(width)\<close>
  "allocate[s] the lowest contiguous width vregs free": it scans from slot 0 for the first
  position at which \<open>width\<close> slots in a row are free, occupies them and returns the
  position.
\<close>

type_synonym VirtualRegistersFile = "bool list"

definition slot_free :: "VirtualRegistersFile \<Rightarrow> reg_t \<Rightarrow> bool" where
  "slot_free vreg_file i = (if i < length vreg_file then vreg_file ! i else True)"

definition is_free :: "VirtualRegistersFile \<Rightarrow> reg_t \<Rightarrow> nat \<Rightarrow> bool" where
  "is_free vreg_file pos w = list_all (slot_free vreg_file) [pos..<pos + w]"

definition alloc_at :: "VirtualRegistersFile \<Rightarrow> reg_t \<Rightarrow> nat \<Rightarrow> VirtualRegistersFile" where
  "alloc_at vreg_file pos w =
     map (\<lambda>i. if pos \<le> i \<and> i < pos + w then False else slot_free vreg_file i)
       [0..<max (length vreg_file) (pos + w)]"

definition alloc :: "VirtualRegistersFile \<Rightarrow> nat \<Rightarrow> reg_t \<times> VirtualRegistersFile" where
  "alloc vreg_file w =
     (let pos = (case find (\<lambda>i. is_free vreg_file i w) [0..<Suc (length vreg_file)] of
                   Some i \<Rightarrow> i
                 | None \<Rightarrow> length vreg_file)
      in (pos, alloc_at vreg_file pos w))"

subsection \<open>Select\<close>

record RegisterTransform =
  reg_map :: "reg_t \<rightharpoonup> reg_t"
  reg_size :: reg_t

record SpillPlan =
  global_spills :: "reg_t \<rightharpoonup> reg_t"
  spill_costs :: "reg_t \<rightharpoonup> nat"

text \<open>\<^verbatim>\<open>emplace\<close> on a map inserts only when the key is absent.\<close>

definition emplace :: "('k \<rightharpoonup> 'v) \<Rightarrow> 'k \<Rightarrow> 'v \<Rightarrow> ('k \<rightharpoonup> 'v)" where
  "emplace m k v = (case m k of None \<Rightarrow> m(k \<mapsto> v) | Some old \<Rightarrow> m)"

definition mark_adjacent ::
  "Graph \<Rightarrow> reg_t \<Rightarrow> (reg_t \<rightharpoonup> reg_t) \<Rightarrow> VirtualRegistersFile \<Rightarrow> VirtualRegistersFile" where
  "mark_adjacent ig reg rmap vreg_file =
     fold (\<lambda>adj f. case rmap adj of
                      Some vreg \<Rightarrow> alloc_at f vreg (width (ig adj))
                    | None \<Rightarrow> f)
       (adjacent (ig reg)) vreg_file"

text \<open>The virtual register the select stage proposes for \<open>reg\<close>, and the register file after it.\<close>

definition candidate :: "Graph \<Rightarrow> reg_t \<Rightarrow> (reg_t \<rightharpoonup> reg_t) \<Rightarrow> reg_t \<times> VirtualRegistersFile" where
  "candidate ig reg rmap = alloc (mark_adjacent ig reg rmap []) (width (ig reg))"

text \<open>
  One iteration of the loop of \<^verbatim>\<open>Allocator::select\<close>, for the register popped from the
  stack; the state is the register transform, the spill plan and \<^verbatim>\<open>vregs_size\<close>.
\<close>

definition select_step ::
  "Graph \<Rightarrow> reg_t \<Rightarrow> RegisterTransform \<times> SpillPlan \<times> reg_t
    \<Rightarrow> RegisterTransform \<times> SpillPlan \<times> reg_t" where
  "select_step ig reg st =
     (case st of (reg_transform, spill_plan, vregs_size) \<Rightarrow>
        (let node = ig reg;
             (vreg, vreg_file) = candidate ig reg (reg_map reg_transform);
             vregs_size' = max vregs_size (length vreg_file)
         in if vreg \<le> max_vreg node
            then (reg_transform\<lparr>reg_map := emplace (reg_map reg_transform) reg vreg\<rparr>,
                  spill_plan, vregs_size')
            else (reg_transform,
                  spill_plan\<lparr>global_spills := emplace (global_spills spill_plan) reg vreg,
                             spill_costs := emplace (spill_costs spill_plan) reg 0\<rparr>,
                  vregs_size')))"

text \<open>The stack is a list with its top first.\<close>

fun select_loop ::
  "Graph \<Rightarrow> reg_t list \<Rightarrow> RegisterTransform \<times> SpillPlan \<times> reg_t
    \<Rightarrow> RegisterTransform \<times> SpillPlan \<times> reg_t" where
  "select_loop ig [] st = st"
| "select_loop ig (reg # select_stack) st = select_loop ig select_stack (select_step ig reg st)"

definition select ::
  "Graph \<Rightarrow> reg_t list \<Rightarrow> RegisterTransform \<Rightarrow> SpillPlan \<Rightarrow> RegisterTransform \<times> SpillPlan" where
  "select ig select_stack reg_transform spill_plan =
     (case select_loop ig select_stack (reg_transform, spill_plan, 0) of
        (reg_transform', spill_plan', vregs_size) \<Rightarrow>
          (reg_transform'\<lparr>reg_size := vregs_size\<rparr>, spill_plan'))"



subsection \<open>An example graph\<close>





section \<open>The OAT tool\<close>

text \<open>
  tools/oatmeal: util.h, dump-oat.h, dump-oat.cpp, main.cpp. A buffer is a list of bytes.
  Multi-byte fields are copied with \<^verbatim>\<open>memcpy\<close> on a little-endian machine.
\<close>

type_synonym byte = "8 word"
type_synonym uint32_t = "32 word"
type_synonym ConstBuffer = "byte list"

text \<open>
  The \<^verbatim>\<open>CHECK\<close> macro prints a message and asserts its condition: a failed check ends the
  program. It is the error \<open>CheckFailed\<close>.
\<close>

datatype oat_abort = CheckFailed

fun read_word :: "ConstBuffer \<Rightarrow> uint32_t" where
  "read_word (b0 # b1 # b2 # b3 # rest) =
     ucast b0 OR push_bit 8 (ucast b1) OR push_bit 16 (ucast b2) OR push_bit 24 (ucast b3)"
| "read_word bs = 0"

definition word_bytes :: "uint32_t \<Rightarrow> byte list" where
  "word_bytes v = [ucast v, ucast (drop_bit 8 v), ucast (drop_bit 16 v), ucast (drop_bit 24 v)]"

definition slice :: "ConstBuffer \<Rightarrow> nat \<Rightarrow> oat_abort + ConstBuffer" where
  "slice buf new_begin =
     (if new_begin \<le> length buf then Inr (drop new_begin buf) else Inl CheckFailed)"

subsection \<open>Adler-32\<close>

record Adler32 =
  adler_a :: uint32_t
  adler_b :: uint32_t

definition kModAdler :: uint32_t where
  "kModAdler = 65521"

definition Adler32_init :: Adler32 where
  "Adler32_init = \<lparr>adler_a = 1, adler_b = 0\<rparr>"

fun Adler32_update :: "Adler32 \<Rightarrow> byte list \<Rightarrow> Adler32" where
  "Adler32_update c [] = c"
| "Adler32_update c (d # data) =
     (let a = (adler_a c + ucast d) mod kModAdler;
          b = (adler_b c + a) mod kModAdler
      in Adler32_update \<lparr>adler_a = a, adler_b = b\<rparr> data)"

definition Adler32_get :: "Adler32 \<Rightarrow> uint32_t" where
  "Adler32_get c = push_bit 16 (adler_b c) OR adler_a c"


subsection \<open>File handles\<close>

text \<open>
  Modelled from the spec: the member functions of \<^verbatim>\<open>FileHandle\<close> and
  \<^verbatim>\<open>ChecksummingFileHandle\<close> that util.h only declares (util.cpp is not part of the
  sources at hand). A file is its contents and a position; writing replaces or appends
  bytes at the position. \<^verbatim>\<open>seek_set\<close> positions relative to the seek reference. Every
  byte written through a checksumming handle enters its Adler-32 state (the handle buffers
  writes and flushes the buffer before the checksum is read and before seeking; the
  buffer is not modelled). The list \<open>writes\<close> records each write in order, with the file
  position at which it happened.
\<close>

record FileHandle =
  contents :: "byte list"
  fpos :: nat
  bytes_written :: nat
  seek_ref :: nat
  writes :: "(nat \<times> byte list) list"
  cksum :: Adler32

definition fopen_w :: FileHandle where
  "fopen_w = \<lparr>contents = [], fpos = 0, bytes_written = 0, seek_ref = 0, writes = [],
     cksum = Adler32_init\<rparr>"

definition put_bytes :: "byte list \<Rightarrow> nat \<Rightarrow> byte list \<Rightarrow> byte list" where
  "put_bytes file pos bs =
     take pos (file @ replicate (pos - length file) 0) @ bs @ drop (pos + length bs) file"

definition fwrite :: "FileHandle \<Rightarrow> byte list \<Rightarrow> FileHandle" where
  "fwrite fh bs =
     fh\<lparr>contents := put_bytes (contents fh) (fpos fh) bs,
        fpos := fpos fh + length bs,
        bytes_written := bytes_written fh + length bs,
        writes := writes fh @ [(fpos fh, bs)]\<rparr>"

definition cksum_fwrite :: "FileHandle \<Rightarrow> byte list \<Rightarrow> FileHandle" where
  "cksum_fwrite fh bs = (fwrite fh bs)\<lparr>cksum := Adler32_update (cksum fh) bs\<rparr>"

definition seek_set :: "FileHandle \<Rightarrow> nat \<Rightarrow> FileHandle" where
  "seek_set fh offset = fh\<lparr>fpos := seek_ref fh + offset\<rparr>"

definition seek_begin :: "FileHandle \<Rightarrow> FileHandle" where
  "seek_begin fh = seek_set fh 0"

definition set_seek_reference_to_fpos :: "FileHandle \<Rightarrow> FileHandle" where
  "set_seek_reference_to_fpos fh = fh\<lparr>seek_ref := fpos fh\<rparr>"

definition set_seek_reference :: "FileHandle \<Rightarrow> nat \<Rightarrow> FileHandle" where
  "set_seek_reference fh offset = fh\<lparr>seek_ref := offset\<rparr>"

definition reset_bytes_written :: "FileHandle \<Rightarrow> FileHandle" where
  "reset_bytes_written fh = fh\<lparr>bytes_written := 0\<rparr>"

definition write_word :: "FileHandle \<Rightarrow> uint32_t \<Rightarrow> FileHandle" where
  "write_word fh v = fwrite fh (word_bytes v)"

definition write_padding :: "FileHandle \<Rightarrow> byte \<Rightarrow> nat \<Rightarrow> FileHandle" where
  "write_padding fh b num = fwrite fh (replicate num b)"


subsection \<open>Headers\<close>

definition kOatMagicNum :: uint32_t where
  "kOatMagicNum = 0x0a74616F"

text \<open>\<^verbatim>\<open>enum class OatVersion : uint32_t\<close>; a version field read from a file is any word.\<close>

definition UNKNOWN :: uint32_t where "UNKNOWN = 0"
definition V_045 :: uint32_t where "V_045 = 0x00353430"
definition V_064 :: uint32_t where "V_064 = 0x00343630"
definition V_079 :: uint32_t where "V_079 = 0x00393730"
definition V_088 :: uint32_t where "V_088 = 0x00383830"

definition versionInt :: "string \<Rightarrow> oat_abort + uint32_t" where
  "versionInt version_str =
     (if version_str = ''045'' then Inr V_045
      else if version_str = ''064'' then Inr V_064
      else if version_str = ''079'' then Inr V_079
      else if version_str = ''088'' then Inr V_088
      else Inl CheckFailed)"

record OatHeader_Common =
  magic :: uint32_t
  version :: uint32_t
  adler32_checksum :: uint32_t

definition sizeof_OatHeader_Common :: nat where
  "sizeof_OatHeader_Common = 12"

definition OatHeader_Common_parse :: "ConstBuffer \<Rightarrow> oat_abort + OatHeader_Common" where
  "OatHeader_Common_parse buf =
     (if length buf \<ge> sizeof_OatHeader_Common
      then Inr \<lparr>magic = read_word buf, version = read_word (drop 4 buf),
                adler32_checksum = read_word (drop 8 buf)\<rparr>
      else Inl CheckFailed)"

definition OatHeader_Common_bytes :: "OatHeader_Common \<Rightarrow> byte list" where
  "OatHeader_Common_bytes h =
     word_bytes (magic h) @ word_bytes (version h) @ word_bytes (adler32_checksum h)"

record ImageInfo_064 =
  patch_delta :: uint32_t
  oat_checksum :: uint32_t
  data_begin :: uint32_t

record OatHeader =
  common :: OatHeader_Common
  instruction_set :: uint32_t
  instruction_set_features_bitmap :: uint32_t
  dex_file_count :: uint32_t
  executable_offset :: uint32_t
  interpreter_to_interpreter_bridge_offset :: uint32_t
  interpreter_to_compiled_code_bridge_offset :: uint32_t
  jni_dlsym_lookup_offset :: uint32_t
  portable_imt_conflict_trampoline_offset :: uint32_t
  portable_resolution_trampoline_offset :: uint32_t
  portable_to_interpreter_bridge_offset :: uint32_t
  quick_generic_jni_trampoline_offset :: uint32_t
  quick_imt_conflict_trampoline_offset :: uint32_t
  quick_resolution_trampoline_offset :: uint32_t
  quick_to_interpreter_bridge_offset :: uint32_t
  image_patch_delta :: uint32_t
  image_file_location_oat_checksum :: uint32_t
  image_file_location_oat_data_begin :: uint32_t
  key_value_store_size :: uint32_t

text \<open>
  \<^verbatim>\<open>build_header\<close>: the common part is a placeholder, rewritten once the checksum is
  known; fields that are not set stay zero.
\<close>

definition build_header ::
  "uint32_t \<Rightarrow> uint32_t \<Rightarrow> uint32_t \<Rightarrow> uint32_t \<Rightarrow> ImageInfo_064 option \<Rightarrow> OatHeader" where
  "build_header dex_count isa keyvalue_size oat_size image_info =
     \<lparr>common = \<lparr>magic = 0xcdcdcdcd, version = 0xcdcdcdcd, adler32_checksum = 0xcdcdcdcd\<rparr>,
      instruction_set = isa,
      instruction_set_features_bitmap = 1,
      dex_file_count = dex_count,
      executable_offset = oat_size,
      interpreter_to_interpreter_bridge_offset = 0,
      interpreter_to_compiled_code_bridge_offset = 0,
      jni_dlsym_lookup_offset = 0,
      portable_imt_conflict_trampoline_offset = 0,
      portable_resolution_trampoline_offset = 0,
      portable_to_interpreter_bridge_offset = 0,
      quick_generic_jni_trampoline_offset = 0,
      quick_imt_conflict_trampoline_offset = 0,
      quick_resolution_trampoline_offset = 0,
      quick_to_interpreter_bridge_offset = 0,
      image_patch_delta = (case image_info of None \<Rightarrow> 0 | Some i \<Rightarrow> patch_delta i),
      image_file_location_oat_checksum = (case image_info of None \<Rightarrow> 0 | Some i \<Rightarrow> oat_checksum i),
      image_file_location_oat_data_begin = (case image_info of None \<Rightarrow> 0 | Some i \<Rightarrow> data_begin i),
      key_value_store_size = keyvalue_size\<rparr>"

text \<open>
  \<^verbatim>\<open>OatHeader::update_checksum\<close> has an empty body: the header does not enter the
  checksum.
\<close>

definition update_checksum :: "OatHeader \<Rightarrow> Adler32 \<Rightarrow> Adler32" where
  "update_checksum header c = c"

text \<open>
  \<^verbatim>\<open>OatHeader::write\<close> writes the common part and then one word per field. The three
  portable trampoline fields are written only when the version field of the header being
  written is 045.
\<close>

definition OatHeader_fields :: "OatHeader \<Rightarrow> uint32_t list" where
  "OatHeader_fields h =
     [instruction_set h,
      instruction_set_features_bitmap h,
      dex_file_count h,
      executable_offset h,
      interpreter_to_interpreter_bridge_offset h,
      interpreter_to_compiled_code_bridge_offset h,
      jni_dlsym_lookup_offset h]
     @ (if version (common h) = V_045
        then [portable_imt_conflict_trampoline_offset h,
              portable_resolution_trampoline_offset h,
              portable_to_interpreter_bridge_offset h]
        else [])
     @ [quick_generic_jni_trampoline_offset h,
        quick_imt_conflict_trampoline_offset h,
        quick_resolution_trampoline_offset h,
        quick_to_interpreter_bridge_offset h,
        image_patch_delta h,
        image_file_location_oat_checksum h,
        image_file_location_oat_data_begin h,
        key_value_store_size h]"

definition OatHeader_write :: "OatHeader \<Rightarrow> FileHandle \<Rightarrow> FileHandle" where
  "OatHeader_write h fh =
     fold (\<lambda>v f. write_word f v) (OatHeader_fields h)
       (fwrite fh (OatHeader_Common_bytes (common h)))"

subsection \<open>Building\<close>

datatype Status =
    PARSE_SUCCESS
  | PARSE_UNKNOWN_VERSION
  | PARSE_BAD_MAGIC_NUMBER
  | PARSE_FAILURE
  | BUILD_SUCCESS
  | BUILD_UNSUPPORTED_VERSION
  | BUILD_IO_ERROR

text \<open>
  What \<^verbatim>\<open>build_oatfile\<close> computes from the dex inputs before it opens the output: the
  sizes that go into the header, and the sections that follow the header. The sections
  (key-value store, dex file listing, alignment padding, dex files, class tables, lookup
  tables, final padding) are written one after the other through the checksumming handle;
  \<open>plan_sections\<close> lists the byte strings of these writes in order.
\<close>

record BuildPlan =
  plan_dex_count :: uint32_t
  plan_keyvalue_size :: uint32_t
  plan_oat_size :: uint32_t
  plan_image_info :: "ImageInfo_064 option"
  plan_sections :: "byte list list"


text \<open>
  The part of \<^verbatim>\<open>build_oatfile\<close> from the opened output file up to the rewritten common
  header.
\<close>

definition write_oat :: "BuildPlan \<Rightarrow> uint32_t \<Rightarrow> uint32_t \<Rightarrow> bool \<Rightarrow> FileHandle" where
  "write_oat plan oat_version isa write_elf =
     (let cksum0 = Adler32_init;
          header = build_header (plan_dex_count plan) isa (plan_keyvalue_size plan)
                     (plan_oat_size plan) (plan_image_info plan);
          cksum1 = update_checksum header cksum0;
          oat_fh = fopen_w;
          oat_fh = (if write_elf
                    then reset_bytes_written
                           (set_seek_reference_to_fpos (write_padding oat_fh 0 0x1000))
                    else oat_fh);
          oat_fh = OatHeader_write header oat_fh;
          cksum_fh = oat_fh\<lparr>cksum := cksum1\<rparr>;
          cksum_fh = fold (\<lambda>section f. cksum_fwrite f section) (plan_sections plan) cksum_fh;
          final_checksum = Adler32_get (cksum cksum_fh);
          cksum_fh = seek_begin cksum_fh;
          common_header = \<lparr>magic = kOatMagicNum, version = oat_version,
                            adler32_checksum = final_checksum\<rparr>
      in cksum_fwrite cksum_fh (OatHeader_Common_bytes common_header))"

text \<open>
  \<^verbatim>\<open>build_oatfile\<close>. \<open>plan\<close> is the outcome of the computations on the dex inputs (a
  failed \<^verbatim>\<open>CHECK\<close> there ends the program), \<open>writable\<close> tells whether the output file
  can be opened for writing, and \<open>elf_write\<close> stands for the ELF writer, which is not part
  of the sources at hand.
\<close>

definition build_oatfile ::
  "bool \<Rightarrow> oat_abort + BuildPlan \<Rightarrow> (FileHandle \<Rightarrow> FileHandle) \<Rightarrow> uint32_t \<Rightarrow> uint32_t \<Rightarrow> bool
    \<Rightarrow> oat_abort + Status \<times> FileHandle option" where
  "build_oatfile writable plan elf_write oat_version isa write_elf =
     (case plan of
        Inl e \<Rightarrow> Inl e
      | Inr p \<Rightarrow>
          if \<not> writable then Inr (BUILD_IO_ERROR, None)
          else
            (let fh = write_oat p oat_version isa write_elf;
                 fh = (if write_elf then elf_write (seek_begin (set_seek_reference fh 0)) else fh)
             in Inr (BUILD_SUCCESS, Some fh)))"

text \<open>\<^verbatim>\<open>enum class InstructionSet\<close> and the lookup of an architecture name.\<close>

definition arch_strings :: "(uint32_t \<times> string) list" where
  "arch_strings =
     [(0, ''NONE''), (1, ''arm''), (2, ''arm64''), (3, ''thumb2''), (4, ''x86''),
      (5, ''x86_64''), (6, ''mips''), (7, ''mips64'')]"

definition kMax :: uint32_t where
  "kMax = 8"

definition instruction_set_of :: "string \<Rightarrow> uint32_t" where
  "instruction_set_of isa =
     (case find (\<lambda>e. isa = snd e) arch_strings of Some e \<Rightarrow> fst e | None \<Rightarrow> kMax)"

text \<open>\<^verbatim>\<open>OatFile::build\<close>: the version string selects the builder.\<close>

definition OatFile_build ::
  "bool \<Rightarrow> oat_abort + BuildPlan \<Rightarrow> (FileHandle \<Rightarrow> FileHandle) \<Rightarrow> string \<Rightarrow> string \<Rightarrow> bool
    \<Rightarrow> oat_abort + Status \<times> FileHandle option" where
  "OatFile_build writable plan elf_write oat_version arch write_elf =
     (case versionInt oat_version of
        Inl e \<Rightarrow> Inl e
      | Inr v \<Rightarrow>
          (let isa = instruction_set_of arch in
           if v = V_079 \<or> v = V_088 then build_oatfile writable plan elf_write v isa write_elf
           else if v = V_045 \<or> v = V_064 then build_oatfile writable plan elf_write v isa write_elf
           else Inr (BUILD_UNSUPPORTED_VERSION, None)))"

subsection \<open>Parsing\<close>

text \<open>
  The result of the parser is a pointer to one of four classes. The contents of a parsed
  file of a known version are not modelled.
\<close>

datatype OatFile =
    OatFile_064
  | OatFile_079
  | OatFile_Unknown OatHeader_Common
  | OatFile_Bad OatHeader_Common

fun status :: "OatFile \<Rightarrow> Status" where
  "status OatFile_064 = PARSE_SUCCESS"
| "status OatFile_079 = PARSE_SUCCESS"
| "status (OatFile_Unknown h) = PARSE_UNKNOWN_VERSION"
| "status (OatFile_Bad h) = PARSE_BAD_MAGIC_NUMBER"

definition OatFile_Unknown_parse :: "ConstBuffer \<Rightarrow> oat_abort + OatFile option" where
  "OatFile_Unknown_parse buf =
     (case OatHeader_Common_parse buf of
        Inl e \<Rightarrow> Inl e
      | Inr h \<Rightarrow> Inr (Some (OatFile_Unknown h)))"

definition OatFile_Bad_parse :: "ConstBuffer \<Rightarrow> oat_abort + OatFile option" where
  "OatFile_Bad_parse buf =
     (case OatHeader_Common_parse buf of
        Inl e \<Rightarrow> Inl e
      | Inr h \<Rightarrow> Inr (Some (OatFile_Bad h)))"

definition sizeof_Elf32_Ehdr :: nat where
  "sizeof_Elf32_Ehdr = 52"

text \<open>
  The first step of \<^verbatim>\<open>parse_oatfile_impl\<close>: a buffer that starts with the ELF
  identification holds the OAT data at offset \<open>0x1000\<close>; any other buffer is the OAT data.
\<close>

definition locate_oat_data :: "ConstBuffer \<Rightarrow> oat_abort + nat \<times> ConstBuffer" where
  "locate_oat_data buf =
     (if length buf \<ge> sizeof_Elf32_Ehdr \<and> take 4 buf = [0x7f, 0x45, 0x4c, 0x46]
      then (case slice buf 0x1000 of Inl e \<Rightarrow> Inl e | Inr b \<Rightarrow> Inr (0x1000, b))
      else Inr (0, buf))"

text \<open>
  \<^verbatim>\<open>parse_oatfile_impl\<close>. The parsers of the known versions are the parameters
  \<open>parse_064\<close> and \<open>parse_079\<close>. A null result is \<open>None\<close>.
\<close>

definition parse_oatfile_impl ::
  "(bool \<Rightarrow> ConstBuffer \<Rightarrow> nat \<Rightarrow> oat_abort + OatFile option)
    \<Rightarrow> (bool \<Rightarrow> ConstBuffer \<Rightarrow> nat \<Rightarrow> oat_abort + OatFile option)
    \<Rightarrow> bool \<Rightarrow> ConstBuffer \<Rightarrow> oat_abort + OatFile option" where
  "parse_oatfile_impl parse_064 parse_079 dex_files_only buf0 =
     (case locate_oat_data buf0 of
        Inl e \<Rightarrow> Inl e
      | Inr (oat_offset, buf) \<Rightarrow>
          (case OatHeader_Common_parse buf of
             Inl e \<Rightarrow> Inl e
           | Inr header \<Rightarrow>
               if magic header \<noteq> kOatMagicNum then OatFile_Bad_parse buf
               else if version header = V_045 \<or> version header = V_064
                 then parse_064 dex_files_only buf oat_offset
               else if version header = V_079 \<or> version header = V_088
                 then parse_079 dex_files_only buf oat_offset
               else if version header = UNKNOWN then OatFile_Unknown_parse buf
               else Inr None))"

definition OatFile_parse ::
  "(bool \<Rightarrow> ConstBuffer \<Rightarrow> nat \<Rightarrow> oat_abort + OatFile option)
    \<Rightarrow> (bool \<Rightarrow> ConstBuffer \<Rightarrow> nat \<Rightarrow> oat_abort + OatFile option)
    \<Rightarrow> ConstBuffer \<Rightarrow> oat_abort + OatFile option" where
  "OatFile_parse parse_064 parse_079 buf = parse_oatfile_impl parse_064 parse_079 False buf"

subsection \<open>The command line tool\<close>

datatype Action = DUMP | BUILD | NONE_ACTION

record DexInput =
  filename :: string
  location :: string

record Arguments =
  action :: Action
  write_elf :: bool
  oat_file :: string
  dex_files :: "DexInput list"
  oat_version :: string
  dump_classes :: bool
  dump_tables :: bool
  dump_memory_usage :: bool
  print_unverified_classes :: bool
  arch :: string
  art_image_location :: string

text \<open>
  How a run of the tool ends: \<^verbatim>\<open>main\<close> returns an exit code, a \<^verbatim>\<open>CHECK\<close> fails, or a
  null pointer is dereferenced.
\<close>

datatype outcome = Exit int | Aborted | NullDereference

text \<open>
  The file system as the tool sees it: \<open>read_file\<close> gives the bytes of a file that can be
  opened and read in full, \<open>short_read\<close> holds for a file that opens but cannot be read in
  full, \<open>writable\<close> holds for a path that can be opened for writing, and \<open>plan_of\<close> is
  what the builder computes from the dex inputs.
\<close>

record Environment =
  read_file :: "string \<rightharpoonup> byte list"
  short_read :: "string \<Rightarrow> bool"
  writable :: "string \<Rightarrow> bool"
  plan_of :: "DexInput list \<Rightarrow> oat_abort + BuildPlan"
  elf_writer :: "FileHandle \<Rightarrow> FileHandle"
  parser_064 :: "bool \<Rightarrow> ConstBuffer \<Rightarrow> nat \<Rightarrow> oat_abort + OatFile option"
  parser_079 :: "bool \<Rightarrow> ConstBuffer \<Rightarrow> nat \<Rightarrow> oat_abort + OatFile option"

definition dump :: "Environment \<Rightarrow> Arguments \<Rightarrow> outcome" where
  "dump env args =
     (if oat_file args = [] then Exit 1
      else case read_file env (oat_file args) of
        None \<Rightarrow> Exit 1
      | Some file_contents \<Rightarrow>
          if short_read env (oat_file args) then Exit 1
          else
            (case OatFile_parse (parser_064 env) (parser_079 env) file_contents of
               Inl e \<Rightarrow> Aborted
             | Inr None \<Rightarrow> NullDereference
             | Inr (Some oatfile) \<Rightarrow>
                 if status oatfile = PARSE_SUCCESS then Exit 0 else Exit 1))"

text \<open>\<^verbatim>\<open>build\<close> calls \<^verbatim>\<open>OatFile::build\<close> and does not look at the status it returns.\<close>

definition build :: "Environment \<Rightarrow> Arguments \<Rightarrow> outcome" where
  "build env args =
     (if oat_file args = [] then Exit 1
      else if dex_files args = [] then Exit 1
      else if oat_version args = [] then Exit 1
      else
        (case OatFile_build (writable env (oat_file args)) (plan_of env (dex_files args))
                (elf_writer env) (oat_version args) (arch args) (write_elf args) of
           Inl e \<Rightarrow> Aborted
         | Inr result \<Rightarrow> Exit 0))"

text \<open>\<^verbatim>\<open>main\<close>, after \<^verbatim>\<open>parse_args\<close> has produced the arguments.\<close>

definition main :: "Environment \<Rightarrow> Arguments \<Rightarrow> outcome" where
  "main env args =
     (case action args of
        BUILD \<Rightarrow> build env args
      | DUMP \<Rightarrow> dump env args
      | NONE_ACTION \<Rightarrow> Exit 1)"

subsection \<open>Example inputs\<close>

text \<open>A build for version 079 on x86 with one dex file and two short sections.\<close>

definition example_plan :: BuildPlan where
  "example_plan =
     \<lparr>plan_dex_count = 1, plan_keyvalue_size = 12, plan_oat_size = 0x1000,
      plan_image_info = None,
      plan_sections = [[0x70, 0x69, 0x63, 0, 0x66, 0x61, 0x6c, 0x73, 0x65, 0, 0, 0], [0, 0, 0, 0]]\<rparr>"


text \<open>Four bytes that are not the magic number.\<close>

definition bad_magic_buffer :: ConstBuffer where
  "bad_magic_buffer = [0xDE, 0xAD, 0xBE, 0xEF]"

text \<open>The same four bytes followed by eight more: a whole common header.\<close>

definition bad_magic_header :: ConstBuffer where
  "bad_magic_header = [0xDE, 0xAD, 0xBE, 0xEF, 0x30, 0x37, 0x39, 0, 1, 2, 3, 4, 5, 6]"

text \<open>The magic number, the version "100" and a zero checksum.\<close>

definition version_100_buffer :: ConstBuffer where
  "version_100_buffer = [0x6F, 0x61, 0x74, 0x0A, 0x31, 0x30, 0x30, 0, 0, 0, 0, 0]"

definition no_parser :: "bool \<Rightarrow> ConstBuffer \<Rightarrow> nat \<Rightarrow> oat_abort + OatFile option" where
  "no_parser dex_files_only buf oat_offset = Inl CheckFailed"

text \<open>
  A build request whose output path cannot be opened for writing:
  \<^verbatim>\<open>--build --oat /missing/out.oat --dex a.dex --oat-version 079 --arch x86\<close>.
\<close>

definition build_args :: Arguments where
  "build_args =
     \<lparr>action = BUILD, write_elf = False, oat_file = ''/missing/out.oat'',
      dex_files = [\<lparr>filename = ''a.dex'', location = ''a.dex''\<rparr>],
      oat_version = ''079'', dump_classes = False, dump_tables = False,
      dump_memory_usage = False, print_unverified_classes = False, arch = ''x86'',
      art_image_location = []\<rparr>"

definition read_only_env :: Environment where
  "read_only_env =
     \<lparr>read_file = Map.empty, short_read = (\<lambda>p. False), writable = (\<lambda>p. False),
      plan_of = (\<lambda>d. Inr example_plan), elf_writer = (\<lambda>fh. fh),
      parser_064 = no_parser, parser_079 = no_parser\<rparr>"

text \<open>A dump request for a file that holds \<open>version_100_buffer\<close>.\<close>

definition dump_args :: Arguments where
  "dump_args = build_args\<lparr>action := DUMP, oat_file := ''v100.oat''\<rparr>"

definition dump_env :: Environment where
  "dump_env = read_only_env\<lparr>read_file := [''v100.oat'' \<mapsto> version_100_buffer]\<rparr>"


section \<open>Properties of the Patricia-tree maps\<close>

lemma bindings_union_result:
  "bindings union_result =
     [(4, domain_of {''g''}), (2, domain_of {''b'', ''c''}),
      (1, domain_of {''a''}), (3, domain_of {''d'', ''e'', ''f''})]"
  by code_simp

lemma bindings_intersection_result:
  "bindings intersection_result = [(2, domain_of {}), (3, domain_of {''e''})]"
  by code_simp

lemma leaf_of_1_shared:
  "ptr_eq (leaf_of 1 union_result) (leaf_of 1 m1_tree)"
  by code_simp

lemma leaf_of_1_m1: "leaf_of 1 m1_tree = PatriciaTreeLeaf 1 1 (domain_of {''a''})"
  by code_simp

lemma bindings_m1:
  "bindings m1_tree =
     [(2, domain_of {''b''}), (1, domain_of {''a''}), (3, domain_of {''d'', ''e''})]"
  by code_simp

lemma bindings_m2:
  "bindings m2_tree =
     [(4, domain_of {''g''}), (2, domain_of {''c''}), (3, domain_of {''e'', ''f''})]"
  by code_simp

text \<open>
  C1 (as the code behaves). With \<open>m1 = {1 \<mapsto> {a}, 2 \<mapsto> {b}, 3 \<mapsto> {d,e}}\<close> and
  \<open>m2 = {2 \<mapsto> {c}, 3 \<mapsto> {e,f}, 4 \<mapsto> {g}}\<close>: the union with set union as combining
  function is \<open>{1 \<mapsto> {a}, 2 \<mapsto> {b,c}, 3 \<mapsto> {d,e,f}, 4 \<mapsto> {g}}\<close>, and the leaf holding
  key 1 in the result is the very node (same address) that holds key 1 in \<open>m1\<close>. The
  intersection with set intersection as combining function is \<open>{2 \<mapsto> {}, 3 \<mapsto> {e}}\<close>:
  key 2 is bound in both maps, its combined value is the empty set, which is not Top, so
  the binding stays.
\<close>

theorem C1_union_intersection_scenario:
  "map_of (bindings m1_tree) =
     [1 \<mapsto> domain_of {''a''}, 2 \<mapsto> domain_of {''b''}, 3 \<mapsto> domain_of {''d'', ''e''}]
   \<and> map_of (bindings m2_tree) =
     [2 \<mapsto> domain_of {''c''}, 3 \<mapsto> domain_of {''e'', ''f''}, 4 \<mapsto> domain_of {''g''}]
   \<and> map_of (bindings union_result) =
     [1 \<mapsto> domain_of {''a''}, 2 \<mapsto> domain_of {''b'', ''c''},
      3 \<mapsto> domain_of {''d'', ''e'', ''f''}, 4 \<mapsto> domain_of {''g''}]
   \<and> ptr_eq (leaf_of 1 union_result) (leaf_of 1 m1_tree)
   \<and> bindings (leaf_of 1 m1_tree) = [(1, domain_of {''a''})]
   \<and> map_of (bindings intersection_result) =
     [2 \<mapsto> domain_of {}, 3 \<mapsto> domain_of {''e''}]"
proof -
  have "map_of (bindings m1_tree) =
     [1 \<mapsto> domain_of {''a''}, 2 \<mapsto> domain_of {''b''}, 3 \<mapsto> domain_of {''d'', ''e''}]"
    unfolding bindings_m1 by (rule ext) simp
  moreover have "map_of (bindings m2_tree) =
     [2 \<mapsto> domain_of {''c''}, 3 \<mapsto> domain_of {''e'', ''f''}, 4 \<mapsto> domain_of {''g''}]"
    unfolding bindings_m2 by (rule ext) simp
  moreover have "map_of (bindings union_result) =
     [1 \<mapsto> domain_of {''a''}, 2 \<mapsto> domain_of {''b'', ''c''},
      3 \<mapsto> domain_of {''d'', ''e'', ''f''}, 4 \<mapsto> domain_of {''g''}]"
    unfolding bindings_union_result by (rule ext) simp
  moreover have "map_of (bindings intersection_result) =
     [2 \<mapsto> domain_of {}, 3 \<mapsto> domain_of {''e''}]"
    unfolding bindings_intersection_result by (rule ext) simp
  moreover have "bindings (leaf_of 1 m1_tree) = [(1, domain_of {''a''})]"
    unfolding leaf_of_1_m1 by simp
  ultimately show ?thesis
    using leaf_of_1_shared by blast
qed

text \<open>
  C1 as stated fails in its last part: the intersection is not \<open>{3 \<mapsto> {e}}\<close>, because
  key 2 is still bound in it.
\<close>

theorem C1_intersection_counterexample:
  "\<not> (map_of (bindings union_result) =
        [1 \<mapsto> domain_of {''a''}, 2 \<mapsto> domain_of {''b'', ''c''},
         3 \<mapsto> domain_of {''d'', ''e'', ''f''}, 4 \<mapsto> domain_of {''g''}]
      \<and> ptr_eq (leaf_of 1 union_result) (leaf_of 1 m1_tree)
      \<and> map_of (bindings intersection_result) = [3 \<mapsto> domain_of {''e''}])"
proof
  assume a: "map_of (bindings union_result) =
        [1 \<mapsto> domain_of {''a''}, 2 \<mapsto> domain_of {''b'', ''c''},
         3 \<mapsto> domain_of {''d'', ''e'', ''f''}, 4 \<mapsto> domain_of {''g''}]
      \<and> ptr_eq (leaf_of 1 union_result) (leaf_of 1 m1_tree)
      \<and> map_of (bindings intersection_result) = [3 \<mapsto> domain_of {''e''}]"
  then have "map_of (bindings intersection_result) (2::IntegerType)
      = [3 \<mapsto> domain_of {''e''}] (2::IntegerType)"
    by simp
  then show False
    unfolding bindings_intersection_result by simp
qed

text \<open>
  C2 at a concrete input. The maps \<open>{1 \<mapsto> {a}}\<close> and \<open>{2 \<mapsto> {a}}\<close> are two leaves with
  different keys. \<open>leq\<close> compares the two leaf values without comparing the keys and
  answers True, although key 2 is bound in the right map and unbound (Top) in the left
  one, and Top is not below \<open>{a}\<close>.
\<close>

theorem C2_leq_leaf_keys_not_compared:
  "bindings leaf_map_1 = [(1, domain_of {''a''})]
   \<and> bindings leaf_map_2 = [(2, domain_of {''a''})]
   \<and> leq leaf_map_1 leaf_map_2
   \<and> find_value 2 leaf_map_2 = Some (domain_of {''a''})
   \<and> find_value 2 leaf_map_1 = None
   \<and> \<not> domain_leq (at leaf_map_1 2) (at leaf_map_2 2)"
  by code_simp


section \<open>Properties of the class-hierarchy index\<close>

lemma get_all_children_loop_Nil:
  "get_all_children_loop h [] children = Some children"
  by (subst get_all_children_loop.simps) simp

lemma get_all_children_loop_Cons:
  "get_all_children_loop h (child # rest) children =
     Option.bind (get_all_children_loop h (get_children h child) (typeset_insert child children))
       (\<lambda>children'. get_all_children_loop h rest children')"
  by (subst get_all_children_loop.simps) simp

lemma set_typeset_insert: "set (typeset_insert t ts) = insert t (set ts)"
  by (auto simp: typeset_insert_def set_insort_key)

lemma child_rel_Image: "child_rel h `` {t} = set (get_children h t)"
  by (auto simp: child_rel_def)

lemma descendants_unfold:
  "(child_rel h)\<^sup>+ `` {t} = (\<Union>c\<in>set (get_children h t). insert c ((child_rel h)\<^sup>+ `` {c}))"
proof -
  have "(child_rel h)\<^sup>+ `` {t} = (child_rel h)\<^sup>* `` (child_rel h `` {t})"
    by (subst trancl_unfold_left) (auto simp: relcomp_unfold Image_def)
  also have "\<dots> = (\<Union>c\<in>set (get_children h t). (child_rel h)\<^sup>* `` {c})"
    by (auto simp: child_rel_Image)
  also have "\<dots> = (\<Union>c\<in>set (get_children h t). insert c ((child_rel h)\<^sup>+ `` {c}))"
    by (auto simp: rtrancl_eq_or_trancl)
  finally show ?thesis .
qed

lemma loop_list:
  assumes "\<And>c acc. c \<in> set xs \<Longrightarrow>
     \<exists>r. get_all_children_loop h (get_children h c) acc = Some r
        \<and> set r = set acc \<union> (child_rel h)\<^sup>+ `` {c}"
  shows "\<exists>r. get_all_children_loop h xs acc = Some r
        \<and> set r = set acc \<union> (\<Union>c\<in>set xs. insert c ((child_rel h)\<^sup>+ `` {c}))"
  using assms
proof (induction xs arbitrary: acc)
  case Nil
  show ?case by (simp add: get_all_children_loop_Nil)
next
  case (Cons x xs)
  from Cons.prems [of x "typeset_insert x acc"] obtain r1 where
    r1: "get_all_children_loop h (get_children h x) (typeset_insert x acc) = Some r1"
        "set r1 = set (typeset_insert x acc) \<union> (child_rel h)\<^sup>+ `` {x}"
    by auto
  have "\<exists>r. get_all_children_loop h xs r1 = Some r
        \<and> set r = set r1 \<union> (\<Union>c\<in>set xs. insert c ((child_rel h)\<^sup>+ `` {c}))"
    by (rule Cons.IH) (simp add: Cons.prems)
  then obtain r where
    r: "get_all_children_loop h xs r1 = Some r"
       "set r = set r1 \<union> (\<Union>c\<in>set xs. insert c ((child_rel h)\<^sup>+ `` {c}))"
    by auto
  have "get_all_children_loop h (x # xs) acc = Some r"
    by (simp add: get_all_children_loop_Cons r1 r)
  moreover have "set r = set acc \<union> (\<Union>c\<in>set (x # xs). insert c ((child_rel h)\<^sup>+ `` {c}))"
    by (auto simp: r r1 set_typeset_insert)
  ultimately show ?case by blast
qed

lemma loop_children:
  assumes wf: "wf ((child_rel h)\<inverse>)"
  shows "\<exists>r. get_all_children_loop h (get_children h t) acc = Some r
        \<and> set r = set acc \<union> (child_rel h)\<^sup>+ `` {t}"
  using wf
proof (induction t arbitrary: acc rule: wf_induct_rule)
  case (less t)
  have "\<exists>r. get_all_children_loop h (get_children h t) acc = Some r
        \<and> set r = set acc \<union> (\<Union>c\<in>set (get_children h t). insert c ((child_rel h)\<^sup>+ `` {c}))"
  proof (rule loop_list)
    fix c acc'
    assume "c \<in> set (get_children h t)"
    then have "(c, t) \<in> (child_rel h)\<inverse>" by (simp add: child_rel_def)
    then show "\<exists>r. get_all_children_loop h (get_children h c) acc' = Some r
        \<and> set r = set acc' \<union> (child_rel h)\<^sup>+ `` {c}"
      by (rule less.IH)
  qed
  then show ?case by (simp add: descendants_unfold [of h t])
qed

lemma finite_child_rel: "finite (dom h) \<Longrightarrow> finite (child_rel h)"
proof -
  assume f: "finite (dom h)"
  have "child_rel h \<subseteq> (\<Union>p\<in>dom h. (\<lambda>c. (p, c)) ` set (get_children h p))"
  proof
    fix x assume "x \<in> child_rel h"
    then obtain p c where x: "x = (p, c)" and c: "c \<in> set (get_children h p)"
      by (auto simp: child_rel_def)
    from c have "h p \<noteq> None"
      by (cases "h p") (simp_all add: get_children_def)
    then have "p \<in> dom h"
      by (simp add: dom_def)
    with x c show "x \<in> (\<Union>p\<in>dom h. (\<lambda>c. (p, c)) ` set (get_children h p))"
      by blast
  qed
  moreover have "finite (\<Union>p\<in>dom h. (\<lambda>c. (p, c)) ` set (get_children h p))"
    using f by simp
  ultimately show ?thesis by (rule finite_subset)
qed

lemma dom_build_class_hierarchy:
  "finite (dom h) \<Longrightarrow> finite (dom (build_class_hierarchy obj h cls))"
  by (simp add: build_class_hierarchy_def Let_def split: option.splits)

lemma dom_build_scope: "finite (dom h) \<Longrightarrow> finite (dom (build_scope_hierarchy obj h scope))"
  by (induction scope arbitrary: h) (simp_all add: dom_build_class_hierarchy)

lemma dom_build_external: "finite (dom h) \<Longrightarrow> finite (dom (build_external_hierarchy obj h cs))"
  by (induction cs arbitrary: h) (simp_all add: dom_build_class_hierarchy)

lemma finite_dom_build_type_hierarchy: "finite (dom (build_type_hierarchy obj all scope))"
  by (simp add: build_type_hierarchy_def dom_build_external dom_build_scope)

text \<open>
  C7. On an acyclic index built from a scope, \<open>get_all_children\<close> returns, and the
  set it returns for a type \<open>T\<close> is the union, over the direct children of \<open>T\<close>, of
  the child together with the child's transitive descendants; this is the set of all
  transitive descendants of \<open>T\<close>, and \<open>T\<close> is not in it.
\<close>

theorem C7_all_children_are_descendants:
  assumes "hierarchy = build_type_hierarchy object_type all_classes scope"
    and "acyclic (child_rel hierarchy)"
  shows "\<exists>children. get_all_children hierarchy T [] = Some children
     \<and> set children =
        (\<Union>c\<in>set (get_children hierarchy T). insert c ((child_rel hierarchy)\<^sup>+ `` {c}))
     \<and> set children = (child_rel hierarchy)\<^sup>+ `` {T}
     \<and> T \<notin> set children"
proof -
  have "finite (child_rel hierarchy)"
    using assms(1) by (simp add: finite_child_rel finite_dom_build_type_hierarchy)
  then have "wf ((child_rel hierarchy)\<inverse>)"
    using assms(2) by (rule finite_acyclic_wf_converse)
  then obtain r where r: "get_all_children_loop hierarchy (get_children hierarchy T) [] = Some r"
    "set r = set [] \<union> (child_rel hierarchy)\<^sup>+ `` {T}"
    using loop_children [of hierarchy T "[]"] by blast
  have "T \<notin> (child_rel hierarchy)\<^sup>+ `` {T}"
    using assms(2) by (auto simp: acyclic_def)
  then show ?thesis
    using r descendants_unfold [of hierarchy T] by (simp add: get_all_children_def)
qed

lemma example_hierarchy_eq:
  "example_hierarchy = [0 \<mapsto> [1, 3], 1 \<mapsto> [2], 2 \<mapsto> [], 3 \<mapsto> []]"
  by (rule ext)
     (simp add: example_hierarchy_def build_type_hierarchy_def example_scope_def
        example_class_def build_class_hierarchy_def entry_def typeset_insert_def Let_def)

lemma example_child_rel: "child_rel example_hierarchy = {(0, 1), (0, 3), (1, 2)}"
  by (auto simp: child_rel_def get_children_def example_hierarchy_eq split: if_splits)

lemma example_acyclic: "acyclic (child_rel example_hierarchy)"
  unfolding example_child_rel
  by (rule acyclicI_order [where f = "\<lambda>x. 3 - x"]) auto

theorem C7_all_children_witness:
  "example_hierarchy = build_type_hierarchy 0 [] example_scope
   \<and> acyclic (child_rel example_hierarchy)
   \<and> (\<exists>children. get_all_children example_hierarchy 0 [] = Some children
        \<and> set children = {1, 2, 3} \<and> 0 \<notin> set children)"
proof -
  have "get_all_children example_hierarchy 0 [] = Some [1, 2, 3]"
    by (simp add: get_all_children_def get_children_def example_hierarchy_eq
        get_all_children_loop_Cons get_all_children_loop_Nil typeset_insert_def)
  with C7_all_children_are_descendants [OF example_hierarchy_def example_acyclic, of 0]
  show ?thesis
    using example_acyclic by (auto simp: example_hierarchy_def)
qed

lemma find_app:
  "find P (xs @ ys) = (case find P xs of None \<Rightarrow> find P ys | Some x \<Rightarrow> Some x)"
  by (induction xs) simp_all

text \<open>
  C9. With \<open>is_virtual = False\<close> the result of \<open>find_collision_excepting\<close> is the first
  method of the class's own direct methods, then of its own virtual methods, that matches
  name and proto and is not \<open>except\<close>. The index, the class table, the resolver and
  \<open>check_direct\<close> do not occur in the result: no ancestor and no descendant is looked at.
  In particular the result is null when neither list holds such a method.
\<close>

theorem C9_non_virtual_own_methods_only:
  "find_collision_excepting ch type_class_of resolve_virtual except name proto cls False check_direct
     = Inr (find (\<lambda>method. match name proto method \<and> Some method \<noteq> except)
              (dmethods cls @ vmethods cls))
   \<and> ((\<forall>method \<in> set (dmethods cls) \<union> set (vmethods cls).
          \<not> (match name proto method \<and> Some method \<noteq> except))
        \<longrightarrow> find_collision_excepting ch type_class_of resolve_virtual except name proto cls
              False check_direct = Inr None)"
proof -
  let ?P = "\<lambda>method. match name proto method \<and> Some method \<noteq> except"
  have eq: "find_collision_excepting ch type_class_of resolve_virtual except name proto cls
      False check_direct = Inr (find ?P (dmethods cls @ vmethods cls))"
    by (simp add: find_collision_excepting_def find_app split: option.splits)
  have "find ?P (dmethods cls @ vmethods cls) = None"
    if "\<forall>method \<in> set (dmethods cls) \<union> set (vmethods cls). \<not> ?P method"
    using that by (auto simp: find_None_iff)
  with eq show ?thesis by simp
qed

theorem C9_non_virtual_witness:
  "map method_name (dmethods example_methods_class @ vmethods example_methods_class) = [7, 8]
   \<and> find_collision_excepting cyclic_hierarchy Map.empty (\<lambda>c n p. None) None 9 1
        example_methods_class False True = Inr None"
proof -
  have h: "\<forall>method \<in> set (dmethods example_methods_class) \<union> set (vmethods example_methods_class).
      \<not> (match 9 1 method \<and> Some method \<noteq> None)"
    by (simp add: example_methods_class_def match_def)
  have n: "map method_name (dmethods example_methods_class @ vmethods example_methods_class) = [7, 8]"
    by (simp add: example_methods_class_def)
  from C9_non_virtual_own_methods_only
    [of cyclic_hierarchy Map.empty "\<lambda>c n p. None" None 9 1 example_methods_class True] h n
  show ?thesis by blast
qed



section \<open>Properties of the select stage\<close>










lemma select_step_keeps_rest_fresh:
  assumes "reg \<notin> set select_stack"
    and "dom (reg_map reg_transform) \<inter> set (reg # select_stack) = {}"
    and "dom (global_spills spill_plan) \<inter> set (reg # select_stack) = {}"
    and "select_step ig reg (reg_transform, spill_plan, vregs_size)
           = (reg_transform', spill_plan', vregs_size')"
  shows "dom (reg_map reg_transform') \<inter> set select_stack = {}
    \<and> dom (global_spills spill_plan') \<inter> set select_stack = {}"
proof -
  from assms(2) have r: "\<And>x. x \<in> set select_stack \<Longrightarrow> reg_map reg_transform x = None"
    by (auto simp: disjoint_iff)
  from assms(3) have g: "\<And>x. x \<in> set select_stack \<Longrightarrow> global_spills spill_plan x = None"
    by (auto simp: disjoint_iff)
  have "reg_map reg_transform' x = None \<and> global_spills spill_plan' x = None"
    if "x \<in> set select_stack" for x
  proof -
    from that assms(1) have "x \<noteq> reg" by blast
    with assms(4) r [OF that] g [OF that] show ?thesis
      by (auto simp: select_step_def emplace_def Let_def
          split: prod.splits if_splits option.splits)
  qed
  then show ?thesis
    by (auto simp: disjoint_iff)
qed






section \<open>Properties of the OAT tool\<close>


















text \<open>
  C4 (as the code behaves). When the OAT data of the buffer holds a whole common header
  (12 bytes) and its first word is not the magic number, the parser returns an
  \<open>OatFile_Bad\<close>, whose status is \<open>PARSE_BAD_MAGIC_NUMBER\<close>. The result consists of the
  three words of the common header; neither the rest of the buffer nor the parsers of the
  known versions contribute to it.
\<close>

theorem C4_bad_magic_with_common_header:
  assumes "locate_oat_data buf = Inr (oat_offset, d)"
    and "sizeof_OatHeader_Common \<le> length d"
    and "read_word d \<noteq> kOatMagicNum"
  shows "parse_oatfile_impl parse_064 parse_079 dex_files_only buf
      = Inr (Some (OatFile_Bad \<lparr>magic = read_word d, version = read_word (drop 4 d),
                                 adler32_checksum = read_word (drop 8 d)\<rparr>))
    \<and> map_sum id (map_option status) (parse_oatfile_impl parse_064 parse_079 dex_files_only buf)
      = Inr (Some PARSE_BAD_MAGIC_NUMBER)"
  using assms
  by (simp add: parse_oatfile_impl_def OatHeader_Common_parse_def OatFile_Bad_parse_def)

theorem C4_bad_magic_witness:
  "locate_oat_data bad_magic_header = Inr (0, bad_magic_header)
   \<and> sizeof_OatHeader_Common \<le> length bad_magic_header
   \<and> read_word bad_magic_header \<noteq> kOatMagicNum
   \<and> parse_oatfile_impl no_parser no_parser False bad_magic_header
       = Inr (Some (OatFile_Bad \<lparr>magic = 0xEFBEADDE, version = 0x00393730,
                                  adler32_checksum = 0x04030201\<rparr>))"
proof -
  have 1: "locate_oat_data bad_magic_header = Inr (0, bad_magic_header)"
    by (simp add: locate_oat_data_def bad_magic_header_def sizeof_Elf32_Ehdr_def)
  have 2: "sizeof_OatHeader_Common \<le> length bad_magic_header"
    by (simp add: bad_magic_header_def sizeof_OatHeader_Common_def)
  have 3: "read_word bad_magic_header \<noteq> kOatMagicNum"
    by (simp add: bad_magic_header_def kOatMagicNum_def)
  have 4: "read_word bad_magic_header = 0xEFBEADDE"
    "read_word (drop 4 bad_magic_header) = 0x00393730"
    "read_word (drop 8 bad_magic_header) = 0x04030201"
    by (simp_all add: bad_magic_header_def)
  from C4_bad_magic_with_common_header [OF 1 2 3, of no_parser no_parser False] 1 2 3 4
  show ?thesis by simp
qed

text \<open>
  C4 as stated fails for a buffer that holds the four bytes but not a whole common
  header: the length check of \<open>OatHeader_Common_parse\<close> fails and no result is returned.
\<close>

theorem C4_short_buffer_counterexample:
  "read_word bad_magic_buffer \<noteq> kOatMagicNum
   \<and> locate_oat_data bad_magic_buffer = Inr (0, bad_magic_buffer)
   \<and> parse_oatfile_impl no_parser no_parser False bad_magic_buffer = Inl CheckFailed"
  by (simp add: parse_oatfile_impl_def locate_oat_data_def bad_magic_buffer_def
      sizeof_Elf32_Ehdr_def OatHeader_Common_parse_def sizeof_OatHeader_Common_def
      kOatMagicNum_def)

text \<open>
  C5 at a concrete input. The buffer holds the magic number and the version "100", which is
  none of 045, 064, 079, 088. The parser returns the null pointer, not an
  \<open>OatFile_Unknown\<close>; \<open>dump\<close> dereferences it.
\<close>

theorem C5_unknown_version_returns_null:
  "locate_oat_data version_100_buffer = Inr (0, version_100_buffer)
   \<and> read_word version_100_buffer = kOatMagicNum
   \<and> read_word (drop 4 version_100_buffer) = 0x00303031
   \<and> read_word (drop 4 version_100_buffer) \<notin> {V_045, V_064, V_079, V_088}
   \<and> parse_oatfile_impl no_parser no_parser False version_100_buffer = Inr None
   \<and> main dump_env dump_args = NullDereference"
  by (simp add: main_def dump_def dump_env_def dump_args_def build_args_def read_only_env_def
      OatFile_parse_def parse_oatfile_impl_def locate_oat_data_def version_100_buffer_def
      sizeof_Elf32_Ehdr_def OatHeader_Common_parse_def sizeof_OatHeader_Common_def
      kOatMagicNum_def V_045_def V_064_def V_079_def V_088_def UNKNOWN_def)

text \<open>
  C8 at a concrete input. The output path cannot be opened for writing, so
  \<open>OatFile_build\<close> reports \<open>BUILD_IO_ERROR\<close>; \<open>build\<close> drops the status and the
  tool exits with code 0.
\<close>

theorem C8_build_failure_exits_zero:
  "OatFile_build (writable read_only_env (oat_file build_args))
      (plan_of read_only_env (dex_files build_args)) (elf_writer read_only_env)
      (oat_version build_args) (arch build_args) (write_elf build_args)
     = Inr (BUILD_IO_ERROR, None)
   \<and> main read_only_env build_args = Exit 0"
  by (simp add: main_def build_def OatFile_build_def build_oatfile_def versionInt_def
      read_only_env_def build_args_def V_079_def)

end
